theory Spec2Isabelle
  imports Main "HOL-Library.Sublist" "HOL-Library.AList"
begin

section \<open>JSON payloads and the Python operations used on them\<close>

text \<open>
  The manager exchanges JSON documents with the control panel API
  (\<^verbatim>\<open>response.json()\<close>, \<^verbatim>\<open>json=data\<close>).  A document is a value of
  \<open>json\<close>; an object is an association list in insertion order, as a Python
  \<^verbatim>\<open>dict\<close> is.  Numbers are the integers; a number with a fractional part has
  no counterpart in this development.
\<close>

datatype json =
    JNull
  | JBool bool
  | JInt int
  | JStr string
  | JList "json list"
  | JDict "(string \<times> json) list"

text \<open>The exceptions that the modelled code can raise.\<close>

datatype error =
    AttributeError
  | TypeError
  | ValueError
  | OSError
  | RequestException
  | KeyboardInterrupt

definition bind_err :: "error + 'a \<Rightarrow> ('a \<Rightarrow> error + 'b) \<Rightarrow> error + 'b" where
  "bind_err m f = (case m of Inl e \<Rightarrow> Inl e | Inr x \<Rightarrow> f x)"

text \<open>Truth value of a document, as \<^verbatim>\<open>if x:\<close> and \<^verbatim>\<open>not x\<close> see it.\<close>

fun truthy :: "json \<Rightarrow> bool" where
  "truthy JNull = False"
| "truthy (JBool b) = b"
| "truthy (JInt n) = (n \<noteq> 0)"
| "truthy (JStr s) = (s \<noteq> [])"
| "truthy (JList xs) = (xs \<noteq> [])"
| "truthy (JDict d) = (d \<noteq> [])"

text \<open>\<^verbatim>\<open>d.get(key, default)\<close>: only a dict has the method.\<close>

fun py_get :: "json \<Rightarrow> string \<Rightarrow> json \<Rightarrow> error + json" where
  "py_get (JDict d) k dflt = Inr (case map_of d k of None \<Rightarrow> dflt | Some v \<Rightarrow> v)"
| "py_get _ k dflt = Inl AttributeError"

text \<open>\<^verbatim>\<open>needle in haystack\<close> on two strings: substring search.\<close>

fun str_in :: "string \<Rightarrow> string \<Rightarrow> bool" where
  "str_in xs [] = (xs = [])"
| "str_in xs (y # ys) = (prefix xs (y # ys) \<or> str_in xs ys)"

text \<open>
  \<^verbatim>\<open>name in container\<close> for a string \<open>name\<close>: membership in a list, key
  membership in a dict, substring test in a string; \<^verbatim>\<open>None\<close>, booleans and
  numbers are not iterable.
\<close>

fun py_in :: "string \<Rightarrow> json \<Rightarrow> error + bool" where
  "py_in name (JList xs) = Inr (JStr name \<in> set xs)"
| "py_in name (JDict d) = Inr (name \<in> set (map fst d))"
| "py_in name (JStr s) = Inr (str_in name s)"
| "py_in name _ = Inl TypeError"

text \<open>\<^verbatim>\<open>xs.append(name)\<close> and \<^verbatim>\<open>xs.remove(name)\<close>: list methods only.\<close>

fun py_append :: "json \<Rightarrow> string \<Rightarrow> error + json" where
  "py_append (JList xs) name = Inr (JList (xs @ [JStr name]))"
| "py_append _ name = Inl AttributeError"

fun py_remove :: "json \<Rightarrow> string \<Rightarrow> error + json" where
  "py_remove (JList xs) name =
     (if JStr name \<in> set xs then Inr (JList (remove1 (JStr name) xs)) else Inl ValueError)"
| "py_remove _ name = Inl AttributeError"

text \<open>
  \<^verbatim>\<open>cfg.setdefault('health', {})[key] = value\<close> and
  \<^verbatim>\<open>cfg.setdefault('health', {}).pop(key, None)\<close>.  \<open>setdefault\<close> inserts the
  empty dict under a missing key and hands back the stored object, which is
  then changed in place; an existing key keeps its position, a new one goes
  last.
\<close>

fun setdefault_set :: "json \<Rightarrow> string \<Rightarrow> string \<Rightarrow> json \<Rightarrow> error + json" where
  "setdefault_set (JDict d) outer key v =
     (case (case map_of d outer of None \<Rightarrow> JDict [] | Some h \<Rightarrow> h) of
        JDict h \<Rightarrow> Inr (JDict (AList.update outer (JDict (AList.update key v h)) d))
      | _ \<Rightarrow> Inl TypeError)"
| "setdefault_set _ outer key v = Inl AttributeError"

fun setdefault_pop :: "json \<Rightarrow> string \<Rightarrow> string \<Rightarrow> error + json" where
  "setdefault_pop (JDict d) outer key =
     (case (case map_of d outer of None \<Rightarrow> JDict [] | Some h \<Rightarrow> h) of
        JDict h \<Rightarrow> Inr (JDict (AList.update outer (JDict (AList.delete key h)) d))
      | JList xs \<Rightarrow> Inl TypeError
      | _ \<Rightarrow> Inl AttributeError)"
| "setdefault_pop _ outer key = Inl AttributeError"

section \<open>The health payload written by the check toggle\<close>

definition check_name :: string where
  "check_name = ''fmos.health.checks.basic.LoadAvgCheck''"

text \<open>
  \<^verbatim>\<open>if not current_config: current_config = {"health": {}}\<close>, shared by
  \<^verbatim>\<open>disable_check\<close> and \<^verbatim>\<open>enable_check\<close>.
\<close>

definition or_empty_health :: "json \<Rightarrow> json" where
  "or_empty_health fetched =
     (if \<not> truthy fetched then JDict [(''health'', JDict [])] else fetched)"

text \<open>
  The payload that \<^verbatim>\<open>disable_check\<close> hands to the PUT, from the document the
  GET of \<^verbatim>\<open>os/health\<close> returned.  The list read from the document is the
  object stored in it, so the in-place \<^verbatim>\<open>append\<close> and the assignment that
  follows amount to one update of the key.
\<close>

definition disable_payload :: "json \<Rightarrow> error + json" where
  "disable_payload fetched =
     (let current_config = or_empty_health fetched in
      bind_err (py_get current_config ''health'' (JDict [])) (\<lambda>health.
      bind_err (py_get health ''ignore_checks'' (JList [])) (\<lambda>ignore_checks.
      bind_err (py_in check_name ignore_checks) (\<lambda>present.
      bind_err (if \<not> present then py_append ignore_checks check_name
                else Inr ignore_checks) (\<lambda>ignore_checks'.
      setdefault_set current_config ''health'' ''ignore_checks'' ignore_checks')))))"

text \<open>The payload that \<^verbatim>\<open>enable_check\<close> hands to the PUT.\<close>

definition enable_payload :: "json \<Rightarrow> error + json" where
  "enable_payload fetched =
     (let current_config = or_empty_health fetched in
      bind_err (py_get current_config ''health'' (JDict [])) (\<lambda>health.
      bind_err (py_get health ''ignore_checks'' (JList [])) (\<lambda>ignore_checks.
      bind_err (py_in check_name ignore_checks) (\<lambda>present.
      bind_err (if present then py_remove ignore_checks check_name
                else Inr ignore_checks) (\<lambda>ignore_checks'.
      if truthy ignore_checks'
      then setdefault_set current_config ''health'' ''ignore_checks'' ignore_checks'
      else setdefault_pop current_config ''health'' ''ignore_checks'')))))"

text \<open>Reading a payload: a key of an object, and the ignore list under \<open>health\<close>.\<close>

fun jlookup :: "json \<Rightarrow> string \<Rightarrow> json option" where
  "jlookup (JDict d) k = map_of d k"
| "jlookup _ k = None"

definition health_of :: "json \<Rightarrow> json" where
  "health_of p = (case jlookup p ''health'' of None \<Rightarrow> JDict [] | Some h \<Rightarrow> h)"

definition ignore_checks_of :: "json \<Rightarrow> json option" where
  "ignore_checks_of p = jlookup (health_of p) ''ignore_checks''"

definition ignore_list :: "json \<Rightarrow> json list" where
  "ignore_list p = (case ignore_checks_of p of Some (JList xs) \<Rightarrow> xs | _ \<Rightarrow> [])"









section \<open>The schedule calculator\<close>

text \<open>
  The dictionary returned by \<^verbatim>\<open>get_backup_schedule\<close>.  The hour, the minute
  and the schedule are whatever the remote document holds under these keys.
\<close>

record backup_schedule =
  hour :: json
  minute :: json
  pre_hour :: json
  pre_minute :: json
  schedule :: json

text \<open>
  \<^verbatim>\<open>x - n\<close> for a document \<open>x\<close> and an integer \<open>n\<close>: integers subtract, a
  boolean counts as 0 or 1, every other operand raises \<^verbatim>\<open>TypeError\<close>.
\<close>

fun py_sub :: "json \<Rightarrow> int \<Rightarrow> error + int" where
  "py_sub (JInt a) n = Inr (a - n)"
| "py_sub (JBool b) n = Inr ((if b then 1 else 0) - n)"
| "py_sub _ n = Inl TypeError"

definition default_schedule :: backup_schedule where
  "default_schedule =
     \<lparr>hour = JInt 23, minute = JInt 48, pre_hour = JInt 23, pre_minute = JInt 43,
      schedule = JStr ''daily''\<rparr>"

text \<open>
  \<^verbatim>\<open>get_backup_schedule\<close> after its GET: from the document that
  \<^verbatim>\<open>api_config_get("os/backup/auto-backup")\<close> returned (the empty dict when the
  request failed) to the schedule.
\<close>

definition get_backup_schedule_of :: "json \<Rightarrow> error + backup_schedule" where
  "get_backup_schedule_of backup_config =
     (if \<not> truthy backup_config \<or> backup_config = JDict [] then Inr default_schedule
      else
        bind_err (py_get backup_config ''auto_backup'' (JDict [])) (\<lambda>ab1.
        bind_err (py_get ab1 ''hour'' (JInt 23)) (\<lambda>hour'.
        bind_err (py_get backup_config ''auto_backup'' (JDict [])) (\<lambda>ab2.
        bind_err (py_get ab2 ''minute'' (JInt 48)) (\<lambda>minute'.
        bind_err (py_get backup_config ''auto_backup'' (JDict [])) (\<lambda>ab3.
        bind_err (py_get ab3 ''schedule'' (JStr ''daily'')) (\<lambda>schedule'.
        bind_err (py_sub minute' 5) (\<lambda>pre_minute'.
        if pre_minute' < 0 then
          bind_err (py_sub hour' 1) (\<lambda>pre_hour'.
            Inr \<lparr>hour = hour', minute = minute',
                 pre_hour = JInt (if pre_hour' < 0 then 23 else pre_hour'),
                 pre_minute = JInt (60 + pre_minute'), schedule = schedule'\<rparr>)
        else
          Inr \<lparr>hour = hour', minute = minute', pre_hour = hour',
               pre_minute = JInt pre_minute', schedule = schedule'\<rparr>))))))))"

text \<open>A key of an object with a default, for stating what the calculator reads.\<close>

definition field_or :: "json \<Rightarrow> string \<Rightarrow> json \<Rightarrow> json" where
  "field_or j k dflt = (case jlookup j k of None \<Rightarrow> dflt | Some v \<Rightarrow> v)"

text \<open>
  The \<open>auto_backup\<close> object of a backup configuration, read as empty when the
  key is missing, and sample configurations for the concrete evaluations.
\<close>

definition midnight_config :: json where
  "midnight_config = JDict [(''auto_backup'',
      JDict [(''hour'', JInt 0), (''minute'', JInt 3), (''schedule'', JStr ''weekly'')])]"

definition auto_backup_of :: "json \<Rightarrow> json" where
  "auto_backup_of cfg = field_or cfg ''auto_backup'' (JDict [])"

definition weekly_config :: json where
  "weekly_config = JDict [(''auto_backup'', JDict [(''schedule'', JStr ''weekly'')])]"

section \<open>Python string operations\<close>

text \<open>
  A \<open>char\<close> stands for the code point of the same number, so a \<open>string\<close> is
  a Python \<^verbatim>\<open>str\<close> over the first 256 code points.  The line boundaries of
  \<^verbatim>\<open>str.splitlines\<close> in that range are LF, CR, CR LF, VT, FF, FS, GS, RS
  and NEL; the white space of \<^verbatim>\<open>str.split\<close> and \<^verbatim>\<open>str.strip\<close> is these
  characters, TAB, US, the space and the no-break space.
\<close>

definition LF :: char where "LF = CHR 0x0A"
definition CR :: char where "CR = CHR 0x0D"

definition is_linebreak :: "char \<Rightarrow> bool" where
  "is_linebreak c = (c \<in> {CHR 0x0A, CHR 0x0B, CHR 0x0C, CHR 0x0D,
                            CHR 0x1C, CHR 0x1D, CHR 0x1E, CHR 0x85})"

definition is_space :: "char \<Rightarrow> bool" where
  "is_space c = (is_linebreak c \<or> c \<in> {CHR 0x09, CHR 0x1F, CHR 0x20, CHR 0xA0})"

text \<open>
  \<^verbatim>\<open>text.splitlines()\<close>: the lines without their terminators; CR LF counts as
  one boundary, and a boundary at the very end opens no further line.  The
  first argument collects the current line in reverse.
\<close>

fun splitlines_from :: "string \<Rightarrow> string \<Rightarrow> string list" where
  "splitlines_from acc [] = (if acc = [] then [] else [rev acc])"
| "splitlines_from acc (c # cs) =
     (if is_linebreak c then
        (case cs of
           d # cs' \<Rightarrow>
             if c = CR \<and> d = LF then rev acc # splitlines_from [] cs'
             else rev acc # splitlines_from [] cs
         | [] \<Rightarrow> [rev acc])
      else splitlines_from (c # acc) cs)"

definition splitlines :: "string \<Rightarrow> string list" where
  "splitlines text = splitlines_from [] text"

text \<open>\<^verbatim>\<open>'\n'.join(lines)\<close>.\<close>

fun join_lines :: "string list \<Rightarrow> string" where
  "join_lines [] = []"
| "join_lines [l] = l"
| "join_lines (l # ls) = l @ LF # join_lines ls"

text \<open>\<^verbatim>\<open>s.split()\<close> and \<^verbatim>\<open>s.strip()\<close>.\<close>

fun split_from :: "string \<Rightarrow> string \<Rightarrow> string list" where
  "split_from acc [] = (if acc = [] then [] else [rev acc])"
| "split_from acc (c # cs) =
     (if is_space c then (if acc = [] then split_from [] cs else rev acc # split_from [] cs)
      else split_from (c # acc) cs)"

definition py_split :: "string \<Rightarrow> string list" where
  "py_split s = split_from [] s"

definition py_strip :: "string \<Rightarrow> string" where
  "py_strip s = rev (dropWhile is_space (rev (dropWhile is_space s)))"

text \<open>
  \<^verbatim>\<open>int(s)\<close>: surrounding white space, an optional sign, then decimal digits,
  where single underscores may stand between digits; anything else raises
  \<^verbatim>\<open>ValueError\<close>.
\<close>

definition is_digit :: "char \<Rightarrow> bool" where
  "is_digit c = (48 \<le> (of_char c :: nat) \<and> (of_char c :: nat) \<le> 57)"

definition digit_val :: "char \<Rightarrow> nat" where
  "digit_val c = of_char c - 48"

fun parse_digits :: "nat \<Rightarrow> bool \<Rightarrow> string \<Rightarrow> nat option" where
  "parse_digits acc after_digit [] = (if after_digit then Some acc else None)"
| "parse_digits acc after_digit (c # cs) =
     (if is_digit c then parse_digits (10 * acc + digit_val c) True cs
      else if c = CHR ''_'' \<and> after_digit then parse_digits acc False cs
      else None)"

definition py_int :: "string \<Rightarrow> error + int" where
  "py_int s =
     (case py_strip s of
        [] \<Rightarrow> Inl ValueError
      | c # cs \<Rightarrow>
          if c = CHR ''-'' then
            (case parse_digits 0 False cs of None \<Rightarrow> Inl ValueError | Some n \<Rightarrow> Inr (- int n))
          else if c = CHR ''+'' then
            (case parse_digits 0 False cs of None \<Rightarrow> Inl ValueError | Some n \<Rightarrow> Inr (int n))
          else
            (case parse_digits 0 False (c # cs) of None \<Rightarrow> Inl ValueError
             | Some n \<Rightarrow> Inr (int n)))"

text \<open>\<^verbatim>\<open>str(n)\<close> for an integer: decimal digits, with a minus sign below zero.\<close>

definition digit_char :: "nat \<Rightarrow> char" where
  "digit_char d = ''0123456789'' ! d"

fun str_nat :: "nat \<Rightarrow> string" where
  "str_nat n = (if n < 10 then [digit_char n] else str_nat (n div 10) @ [digit_char (n mod 10)])"

declare str_nat.simps [simp del]

definition str_int :: "int \<Rightarrow> string" where
  "str_int i = (if i < 0 then CHR ''-'' # str_nat (nat (- i)) else str_nat (nat i))"

section \<open>The credential store\<close>

text \<open>
  The credential file beside the script: missing, present but failing to open
  or to be read as text, or present with a text.
\<close>

datatype file_state = Absent | Unreadable | Contents string

text \<open>
  \<^verbatim>\<open>f.readlines()\<close> on a file opened in text mode: every line keeps its
  terminator, which universal newlines turn into LF.
\<close>

fun readlines_from :: "string \<Rightarrow> string \<Rightarrow> string list" where
  "readlines_from acc [] = (if acc = [] then [] else [rev acc])"
| "readlines_from acc (c # cs) =
     (if c = CR then
        (case cs of
           d # cs' \<Rightarrow>
             if d = LF then rev (LF # acc) # readlines_from [] cs'
             else rev (LF # acc) # readlines_from [] cs
         | [] \<Rightarrow> [rev (LF # acc)])
      else if c = LF then rev (LF # acc) # readlines_from [] cs
      else readlines_from (c # acc) cs)"

definition readlines :: "string \<Rightarrow> string list" where
  "readlines text = readlines_from [] text"

text \<open>\<^verbatim>\<open>except Exception\<close> lets a keyboard interrupt through.\<close>

definition is_exception :: "error \<Rightarrow> bool" where
  "is_exception e = (e \<noteq> KeyboardInterrupt)"

text \<open>
  The body of the \<^verbatim>\<open>try\<close> in \<^verbatim>\<open>get_stored_credentials\<close>.  The parameter
  \<open>decode\<close> is \<^verbatim>\<open>base64.b64decode(s).decode()\<close>, with \<open>None\<close> where either
  step raises.  The body yields the pair it returns, or \<open>None\<close> when it falls
  through without returning.
\<close>

definition read_credentials ::
  "(string \<Rightarrow> string option) \<Rightarrow> file_state \<Rightarrow> error + (string \<times> string) option" where
  "read_credentials decode cf =
     (case cf of
        Absent \<Rightarrow> Inl OSError
      | Unreadable \<Rightarrow> Inl OSError
      | Contents text \<Rightarrow>
          (let lines = readlines text in
           if length lines \<ge> 2 then
             (case decode (py_strip (lines ! 0)) of
                None \<Rightarrow> Inl ValueError
              | Some username \<Rightarrow>
                  (case decode (py_strip (lines ! 1)) of
                     None \<Rightarrow> Inl ValueError
                   | Some password \<Rightarrow> Inr (Some (username, password))))
           else Inr None))"

definition get_stored_credentials ::
  "(string \<Rightarrow> string option) \<Rightarrow> file_state \<Rightarrow> error + (string option \<times> string option)" where
  "get_stored_credentials decode cf =
     (if cf = Absent then Inr (None, None)
      else
        (case read_credentials decode cf of
           Inr (Some (username, password)) \<Rightarrow> Inr (Some username, Some password)
         | Inr None \<Rightarrow> Inr (None, None)
         | Inl e \<Rightarrow> if is_exception e then Inr (None, None) else Inl e))"

text \<open>A decoder for the concrete evaluations: it knows two encoded words.\<close>

definition sample_decode :: "string \<Rightarrow> string option" where
  "sample_decode s =
     (if s = ''YWRtaW4='' then Some ''admin'' else if s = ''cHc='' then Some ''pw'' else None)"

section \<open>The manager, the control panel API and the crontab\<close>

text \<open>
  A reply of the control panel: \<^verbatim>\<open>response.ok\<close>, \<^verbatim>\<open>response.text\<close> and
  \<^verbatim>\<open>response.json()\<close>, the last being \<open>None\<close> when the body is no JSON and
  the call raises.
\<close>

record http_response =
  resp_ok :: bool
  resp_text :: string
  resp_json :: "json option"

datatype request =
    Login string string
  | ConfigGet string
  | ConfigPut string json
  | ConfigApply

datatype crontab_cmd = CrontabList | CrontabInstall string

text \<open>
  What stays fixed during one run: the attributes of the manager object, the
  process environment, and how the surroundings answer.  \<open>http n\<close> is the
  reply to the \<open>n\<close>-th request of the run, \<open>None\<close> when the request raises
  (time-out, refused connection); \<open>crontab_raises n\<close> says whether the \<open>n\<close>-th
  call of the \<^verbatim>\<open>crontab\<close> program raises; \<open>crontab_accepts\<close> says which texts
  \<^verbatim>\<open>crontab -\<close> installs.  \<open>b64_decode\<close> is
  \<^verbatim>\<open>base64.b64decode(s).decode()\<close> and \<open>repr_container\<close> is \<^verbatim>\<open>str\<close> on
  lists and dicts.  Log lines and console output are left out, and so is the
  15 minute sleep of \<^verbatim>\<open>enable_check\<close>.
\<close>

record manager =
  script_path :: string
  executable :: string
  no_log :: bool
  environ_user :: "string option"
  environ_pass :: "string option"
  b64_decode :: "string \<Rightarrow> string option"
  repr_container :: "json \<Rightarrow> string"
  http :: "nat \<Rightarrow> http_response option"
  crontab_raises :: "nat \<Rightarrow> bool"
  crontab_accepts :: "string \<Rightarrow> bool"

text \<open>
  What a run changes: the requests sent so far with their replies, the
  installed crontab (\<open>None\<close> when the user has none, so that \<^verbatim>\<open>crontab -l\<close>
  exits with status 1), the calls of the \<^verbatim>\<open>crontab\<close> program so far, and the
  credential file.
\<close>

record world =
  requests :: "(request \<times> http_response option) list"
  crontab :: "string option"
  crontab_cmds :: "crontab_cmd list"
  creds_file :: file_state

definition send :: "manager \<Rightarrow> request \<Rightarrow> world \<Rightarrow> http_response option \<times> world" where
  "send mgr rq w =
     (let reply = http mgr (length (requests w))
      in (reply, w\<lparr>requests := requests w @ [(rq, reply)]\<rparr>))"

definition nonempty :: "string option \<Rightarrow> bool" where
  "nonempty s = (case s of None \<Rightarrow> False | Some t \<Rightarrow> t \<noteq> [])"

definition post_login :: "manager \<Rightarrow> string \<Rightarrow> string \<Rightarrow> world \<Rightarrow> bool \<times> world" where
  "post_login mgr username password w =
     (case send mgr (Login username password) w of
        (None, w') \<Rightarrow> (False, w')
      | (Some r, w') \<Rightarrow> (resp_ok r \<and> str_in ''username'' (resp_text r), w'))"

definition api_login :: "manager \<Rightarrow> world \<Rightarrow> (error + bool) \<times> world" where
  "api_login mgr w =
     (if nonempty (environ_user mgr) \<and> nonempty (environ_pass mgr) then
        (case post_login mgr (the (environ_user mgr)) (the (environ_pass mgr)) w of
           (ok, w') \<Rightarrow> (Inr ok, w'))
      else
        (case get_stored_credentials (b64_decode mgr) (creds_file w) of
           Inl e \<Rightarrow> (Inl e, w)
         | Inr (username, password) \<Rightarrow>
             if nonempty username \<and> nonempty password then
               (case post_login mgr (the username) (the password) w of
                  (ok, w') \<Rightarrow> (Inr ok, w'))
             else (Inr True, w)))"

definition api_config_get :: "manager \<Rightarrow> string \<Rightarrow> world \<Rightarrow> json \<times> world" where
  "api_config_get mgr category w =
     (case send mgr (ConfigGet category) w of
        (None, w') \<Rightarrow> (JDict [], w')
      | (Some r, w') \<Rightarrow>
          if resp_ok r then
            (case resp_json r of None \<Rightarrow> (JDict [], w') | Some j \<Rightarrow> (j, w'))
          else (JDict [], w'))"

definition api_config_put :: "manager \<Rightarrow> string \<Rightarrow> json \<Rightarrow> world \<Rightarrow> bool \<times> world" where
  "api_config_put mgr category data w =
     (case send mgr (ConfigPut category data) w of
        (None, w') \<Rightarrow> (False, w')
      | (Some r, w') \<Rightarrow> (resp_ok r, w'))"

definition api_config_apply :: "manager \<Rightarrow> world \<Rightarrow> bool \<times> world" where
  "api_config_apply mgr w =
     (case send mgr ConfigApply w of
        (None, w') \<Rightarrow> (False, w')
      | (Some r, w') \<Rightarrow> (resp_ok r, w'))"

text \<open>
  \<^verbatim>\<open>self.api_config_put(category, data) and self.api_config_apply()\<close>: the
  second call is made only when the first returned true.
\<close>

definition put_and_apply :: "manager \<Rightarrow> string \<Rightarrow> json \<Rightarrow> world \<Rightarrow> bool \<times> world" where
  "put_and_apply mgr category data w =
     (case api_config_put mgr category data w of
        (True, w') \<Rightarrow> api_config_apply mgr w'
      | (False, w') \<Rightarrow> (False, w'))"

definition get_backup_schedule :: "manager \<Rightarrow> world \<Rightarrow> (error + backup_schedule) \<times> world" where
  "get_backup_schedule mgr w =
     (case api_config_get mgr ''os/backup/auto-backup'' w of
        (backup_config, w') \<Rightarrow> (get_backup_schedule_of backup_config, w'))"

text \<open>
  \<^verbatim>\<open>subprocess.run(['crontab', '-l'], ...)\<close> gives the exit status and the
  captured output; \<^verbatim>\<open>subprocess.run(['crontab', '-'], input=text, ...)\<close> replaces
  the crontab when the program accepts the text.  Either call may raise.
\<close>

definition run_crontab_l :: "manager \<Rightarrow> world \<Rightarrow> (error + int \<times> string) \<times> world" where
  "run_crontab_l mgr w =
     (let w' = w\<lparr>crontab_cmds := crontab_cmds w @ [CrontabList]\<rparr> in
      if crontab_raises mgr (length (crontab_cmds w)) then (Inl OSError, w')
      else (Inr (case crontab w of None \<Rightarrow> (1, []) | Some text \<Rightarrow> (0, text)), w'))"

definition run_crontab_install :: "manager \<Rightarrow> string \<Rightarrow> world \<Rightarrow> (error + unit) \<times> world" where
  "run_crontab_install mgr text w =
     (let w' = w\<lparr>crontab_cmds := crontab_cmds w @ [CrontabInstall text]\<rparr> in
      if crontab_raises mgr (length (crontab_cmds w)) then (Inl OSError, w')
      else (Inr (), if crontab_accepts mgr text then w'\<lparr>crontab := Some text\<rparr> else w'))"

text \<open>
  \<^verbatim>\<open>str(self.script_path) in line and 'disable' in line\<close>: the test that makes
  a crontab line an entry of this tool.
\<close>

definition is_own_entry :: "manager \<Rightarrow> string \<Rightarrow> bool" where
  "is_own_entry mgr line = (str_in (script_path mgr) line \<and> str_in ''disable'' line)"

definition get_current_cron_entry :: "manager \<Rightarrow> world \<Rightarrow> string option \<times> world" where
  "get_current_cron_entry mgr w =
     (case run_crontab_l mgr w of
        (Inl e, w') \<Rightarrow> (None, w')
      | (Inr (returncode, stdout), w') \<Rightarrow>
          if returncode = 0 then
            (map_option py_strip (find (is_own_entry mgr) (splitlines stdout)), w')
          else (None, w'))"

text \<open>A value inside an f-string, and \<^verbatim>\<open>n != x\<close> for an integer \<open>n\<close>.\<close>

definition py_str :: "manager \<Rightarrow> json \<Rightarrow> string" where
  "py_str mgr j =
     (case j of
        JNull \<Rightarrow> ''None''
      | JBool b \<Rightarrow> (if b then ''True'' else ''False'')
      | JInt n \<Rightarrow> str_int n
      | JStr t \<Rightarrow> t
      | _ \<Rightarrow> repr_container mgr j)"

definition py_ne :: "int \<Rightarrow> json \<Rightarrow> bool" where
  "py_ne n j =
     (case j of JInt m \<Rightarrow> n \<noteq> m | JBool b \<Rightarrow> n \<noteq> (if b then 1 else 0) | _ \<Rightarrow> True)"

definition cron_entry :: "manager \<Rightarrow> backup_schedule \<Rightarrow> string" where
  "cron_entry mgr sched =
     (if no_log mgr then
        py_str mgr (pre_minute sched) @ '' '' @ py_str mgr (pre_hour sched) @ '' * * * NO_LOG=1 ''
          @ executable mgr @ '' '' @ script_path mgr @ '' disable >/dev/null 2>&1''
      else
        py_str mgr (pre_minute sched) @ '' '' @ py_str mgr (pre_hour sched) @ '' * * * ''
          @ executable mgr @ '' '' @ script_path mgr @ '' disable >/dev/null 2>&1'')"

text \<open>
  \<^verbatim>\<open>setup_cronjob\<close>.  The schedule is read outside the \<^verbatim>\<open>try\<close>, so an error
  there leaves the function; an error of the \<^verbatim>\<open>crontab\<close> program is caught
  and makes the result false.
\<close>

definition setup_cronjob :: "manager \<Rightarrow> world \<Rightarrow> (error + bool) \<times> world" where
  "setup_cronjob mgr w =
     (case get_backup_schedule mgr w of
        (Inl e, w1) \<Rightarrow> (Inl e, w1)
      | (Inr sched, w1) \<Rightarrow>
          (case run_crontab_l mgr w1 of
             (Inl e, w2) \<Rightarrow> (Inr False, w2)
           | (Inr (returncode, stdout), w2) \<Rightarrow>
               (let existing_cron = (if returncode = 0 then stdout else []);
                    new_cron_lines =
                      filter (\<lambda>line. \<not> str_in (script_path mgr) line \<or> \<not> str_in ''disable'' line)
                        (splitlines existing_cron) @ [cron_entry mgr sched]
                in case run_crontab_install mgr (join_lines new_cron_lines @ [LF]) w2 of
                     (Inl e, w3) \<Rightarrow> (Inr False, w3)
                   | (Inr u, w3) \<Rightarrow> (Inr True, w3))))"

definition check_and_update_cronjob :: "manager \<Rightarrow> world \<Rightarrow> (error + unit) \<times> world" where
  "check_and_update_cronjob mgr w =
     (case get_backup_schedule mgr w of
        (Inl e, w1) \<Rightarrow> (Inl e, w1)
      | (Inr sched, w1) \<Rightarrow>
          (case get_current_cron_entry mgr w1 of
             (None, w2) \<Rightarrow> (Inr (), w2)
           | (Some current_cron, w2) \<Rightarrow>
               if current_cron = [] then (Inr (), w2)
               else
                 (let parts = py_split current_cron in
                  if length parts \<ge> 5 then
                    (case py_int (parts ! 0) of
                       Inl e \<Rightarrow> (Inl e, w2)
                     | Inr current_minute \<Rightarrow>
                         (case py_int (parts ! 1) of
                            Inl e \<Rightarrow> (Inl e, w2)
                          | Inr current_hour \<Rightarrow>
                              if py_ne current_minute (pre_minute sched)
                                 \<or> py_ne current_hour (pre_hour sched)
                              then
                                (case setup_cronjob mgr w2 of
                                   (Inl e, w3) \<Rightarrow> (Inl e, w3)
                                 | (Inr r, w3) \<Rightarrow> (Inr (), w3))
                              else (Inr (), w2)))
                  else (Inr (), w2))))"

definition disable_check :: "manager \<Rightarrow> world \<Rightarrow> (error + bool) \<times> world" where
  "disable_check mgr w =
     (case check_and_update_cronjob mgr w of
        (Inl e, w1) \<Rightarrow> (Inl e, w1)
      | (Inr u, w1) \<Rightarrow>
          (case api_login mgr w1 of
             (Inl e, w2) \<Rightarrow> (Inl e, w2)
           | (Inr logged_in, w2) \<Rightarrow>
               if \<not> logged_in then (Inr False, w2)
               else
                 (case api_config_get mgr ''os/health'' w2 of
                    (current_config, w3) \<Rightarrow>
                      (case disable_payload current_config of
                         Inl e \<Rightarrow> (Inl e, w3)
                       | Inr payload \<Rightarrow>
                           (case put_and_apply mgr ''os/health'' payload w3 of
                              (ok, w4) \<Rightarrow> (Inr ok, w4))))))"

definition enable_check :: "manager \<Rightarrow> world \<Rightarrow> (error + bool) \<times> world" where
  "enable_check mgr w =
     (case check_and_update_cronjob mgr w of
        (Inl e, w1) \<Rightarrow> (Inl e, w1)
      | (Inr u, w1) \<Rightarrow>
          (case api_login mgr w1 of
             (Inl e, w2) \<Rightarrow> (Inl e, w2)
           | (Inr logged_in, w2) \<Rightarrow>
               if \<not> logged_in then (Inr False, w2)
               else
                 (case api_config_get mgr ''os/health'' w2 of
                    (current_config, w3) \<Rightarrow>
                      (case enable_payload current_config of
                         Inl e \<Rightarrow> (Inl e, w3)
                       | Inr payload \<Rightarrow>
                           (case put_and_apply mgr ''os/health'' payload w3 of
                              (ok, w4) \<Rightarrow> (Inr ok, w4))))))"




definition clear_post_backup :: "manager \<Rightarrow> world \<Rightarrow> world" where
  "clear_post_backup mgr w =
     (case api_config_put mgr ''os/backup/post-backup'' (JDict [(''post_backup'', JDict [])]) w of
        (put_ok, w1) \<Rightarrow> snd (api_config_apply mgr w1))"


section \<open>Request traces\<close>







text \<open>
  A manager and a world for the concrete evaluations: no credentials, no
  crontab, and a control panel that answers every request with success and an
  empty object; and the same manager with a control panel that refuses every
  request.
\<close>

definition ok_reply :: http_response where
  "ok_reply = \<lparr>resp_ok = True, resp_text = ''{}'', resp_json = Some (JDict [])\<rparr>"

definition refused_reply :: http_response where
  "refused_reply = \<lparr>resp_ok = False, resp_text = ''denied'', resp_json = None\<rparr>"

definition sample_manager :: manager where
  "sample_manager =
     \<lparr>script_path = ''/opt/fmos/manage_loadavg_check.py'',
      executable = ''/usr/bin/python3'',
      no_log = False,
      environ_user = None,
      environ_pass = None,
      b64_decode = sample_decode,
      repr_container = (\<lambda>j. ''{}''),
      http = (\<lambda>n. Some ok_reply),
      crontab_raises = (\<lambda>n. False),
      crontab_accepts = (\<lambda>text. True)\<rparr>"

definition refusing_manager :: manager where
  "refusing_manager = sample_manager\<lparr>http := (\<lambda>n. Some refused_reply)\<rparr>"

definition fresh_world :: world where
  "fresh_world = \<lparr>requests = [], crontab = None, crontab_cmds = [], creds_file = Absent\<rparr>"

text \<open>The texts handed to \<^verbatim>\<open>crontab -\<close> so far, oldest first.\<close>

fun crontab_writes_of :: "crontab_cmd list \<Rightarrow> string list" where
  "crontab_writes_of [] = []"
| "crontab_writes_of (CrontabList # cs) = crontab_writes_of cs"
| "crontab_writes_of (CrontabInstall text # cs) = text # crontab_writes_of cs"

definition crontab_writes :: "world \<Rightarrow> string list" where
  "crontab_writes w = crontab_writes_of (crontab_cmds w)"

text \<open>The lines that \<^verbatim>\<open>crontab -l\<close> shows: none for a user without crontab.\<close>

definition crontab_lines :: "world \<Rightarrow> string list" where
  "crontab_lines w = (case crontab w of None \<Rightarrow> [] | Some text \<Rightarrow> splitlines text)"

text \<open>
  The document that \<^verbatim>\<open>api_config_get\<close> makes of a reply: the parsed body of
  a successful reply, the empty dict in every other case.
\<close>

definition reply_document :: "http_response option \<Rightarrow> json" where
  "reply_document reply =
     (case reply of
        None \<Rightarrow> JDict []
      | Some r \<Rightarrow> if resp_ok r then (case resp_json r of None \<Rightarrow> JDict [] | Some j \<Rightarrow> j)
                  else JDict [])"








section \<open>The orchestrator\<close>








section \<open>Properties of the health payload\<close>



lemma or_empty_health_idem: "jlookup p ''health'' = Some h \<Longrightarrow> or_empty_health p = p"
  by (cases p) (auto simp: or_empty_health_def)





















lemmas payload_eval =
  disable_payload_def enable_payload_def or_empty_health_def bind_err_def check_name_def
  ignore_list_def ignore_checks_of_def health_of_def





section \<open>Properties of the schedule calculator\<close>

lemma get_backup_schedule_of_dict:
  assumes "truthy cfg" and "py_get cfg ''auto_backup'' (JDict []) = Inr ab"
  shows "get_backup_schedule_of cfg =
        bind_err (py_get ab ''hour'' (JInt 23)) (\<lambda>hour'.
        bind_err (py_get ab ''minute'' (JInt 48)) (\<lambda>minute'.
        bind_err (py_get ab ''schedule'' (JStr ''daily'')) (\<lambda>schedule'.
        bind_err (py_sub minute' 5) (\<lambda>pre_minute'.
        if pre_minute' < 0 then
          bind_err (py_sub hour' 1) (\<lambda>pre_hour'.
            Inr \<lparr>hour = hour', minute = minute',
                 pre_hour = JInt (if pre_hour' < 0 then 23 else pre_hour'),
                 pre_minute = JInt (60 + pre_minute'), schedule = schedule'\<rparr>)
        else
          Inr \<lparr>hour = hour', minute = minute', pre_hour = hour',
               pre_minute = JInt pre_minute', schedule = schedule'\<rparr>))))"
proof -
  have "cfg \<noteq> JDict []" using assms(1) by auto
  then show ?thesis using assms
    by (simp add: get_backup_schedule_of_def bind_err_def)
qed


lemma pre_minute_mod:
  fixes h m :: int
  assumes "0 \<le> m" "m \<le> 59"
  shows "(60 * h + m - 5) mod 60 = (if m - 5 < 0 then m - 5 + 60 else m - 5)"
proof (cases "m - 5 < 0")
  case True
  have "(60 * h + m - 5) mod 60 = ((m + 55) + 60 * (h - 1)) mod 60" by (simp add: algebra_simps)
  also have "\<dots> = (m + 55) mod 60" by (simp only: mod_mult_self2)
  also have "\<dots> = m + 55" using True assms by (simp add: mod_pos_pos_trivial)
  finally show ?thesis using True by simp
next
  case False
  have "(60 * h + m - 5) mod 60 = ((m - 5) + 60 * h) mod 60" by (simp add: algebra_simps)
  also have "\<dots> = (m - 5) mod 60" by (simp only: mod_mult_self2)
  also have "\<dots> = m - 5" using False assms by (simp add: mod_pos_pos_trivial)
  finally show ?thesis using False by simp
qed

lemma pre_hour_mod:
  fixes h m :: int
  assumes "0 \<le> h" "h \<le> 23" "0 \<le> m" "m \<le> 59"
  shows "((60 * h + m - 5) mod 1440) div 60 =
           (if m - 5 < 0 then (if h = 0 then 23 else h - 1) else h)"
proof -
  consider (a) "m - 5 < 0" "h = 0" | (b) "m - 5 < 0" "h \<noteq> 0" | (c) "\<not> m - 5 < 0" by blast
  then show ?thesis
  proof cases
    case a
    have "(60 * h + m - 5) mod 1440 = ((m + 1435) + 1440 * (-1)) mod 1440"
      using a by simp
    also have "\<dots> = (m + 1435) mod 1440" by (simp only: mod_mult_self2)
    also have "\<dots> = m + 1435" using a assms by (simp add: mod_pos_pos_trivial)
    finally show ?thesis using a assms by simp
  next
    case b
    have "(60 * h + m - 5) mod 1440 = 60 * h + m - 5"
      using b assms by (simp add: mod_pos_pos_trivial)
    moreover have "(60 * h + m - 5) div 60 = h - 1" using b assms by simp
    ultimately show ?thesis using b by simp
  next
    case c
    have "(60 * h + m - 5) mod 1440 = 60 * h + m - 5"
      using c assms by (simp add: mod_pos_pos_trivial)
    moreover have "(60 * h + m - 5) div 60 = h" using c assms by simp
    ultimately show ?thesis using c by simp
  qed
qed

text \<open>
  C2: for a backup configuration whose \<open>auto_backup\<close> object holds an hour in
  0..23 and a minute in 0..59, \<^verbatim>\<open>get_backup_schedule\<close> returns a schedule
  whose pre-backup minute is the minute minus 5, plus 60 when that is negative,
  and whose pre-backup hour is then the hour minus 1, with hour 0 giving 23;
  that is the time of day five minutes earlier, modulo 24 hours.  The schedule
  string is handed through and nothing else is part of the result.
\<close>

theorem pre_backup_time:
  assumes ab: "jlookup cfg ''auto_backup'' = Some ab"
    and h: "jlookup ab ''hour'' = Some (JInt h)"
    and m: "jlookup ab ''minute'' = Some (JInt m)"
    and range: "0 \<le> h" "h \<le> 23" "0 \<le> m" "m \<le> 59"
  shows "\<exists>s. get_backup_schedule_of cfg = Inr s
       \<and> hour s = JInt h \<and> minute s = JInt m
       \<and> pre_minute s = JInt (if m - 5 < 0 then m - 5 + 60 else m - 5)
       \<and> pre_hour s = JInt (if m - 5 < 0 then (if h = 0 then 23 else h - 1) else h)
       \<and> pre_minute s = JInt ((60 * h + m - 5) mod 60)
       \<and> pre_hour s = JInt (((60 * h + m - 5) mod 1440) div 60)
       \<and> schedule s = field_or ab ''schedule'' (JStr ''daily'')"
proof -
  obtain d where d: "cfg = JDict d" using ab by (cases cfg) auto
  obtain a where a: "ab = JDict a" using h by (cases ab) auto
  have t: "truthy cfg" using ab d by auto
  have g: "py_get cfg ''auto_backup'' (JDict []) = Inr ab" using ab d by simp
  have gh: "py_get ab ''hour'' (JInt 23) = Inr (JInt h)" using h a by simp
  have gm: "py_get ab ''minute'' (JInt 48) = Inr (JInt m)" using m a by simp
  have gs: "py_get ab ''schedule'' (JStr ''daily'') = Inr (field_or ab ''schedule'' (JStr ''daily''))"
    using a by (simp add: field_or_def)
  note pm = pre_minute_mod[OF range(3,4), of h]
  note ph = pre_hour_mod[OF range]
  show ?thesis
  proof (cases "m - 5 < 0")
    case True
    then show ?thesis
      unfolding get_backup_schedule_of_dict[OF t g] gh gm gs pm ph
      using range by (simp add: bind_err_def)
  next
    case False
    then show ?thesis
      unfolding get_backup_schedule_of_dict[OF t g] gh gm gs pm ph
      by (simp add: bind_err_def)
  qed
qed


theorem pre_backup_time_witness:
  "\<exists>s. get_backup_schedule_of midnight_config = Inr s
     \<and> hour s = JInt 0 \<and> minute s = JInt 3 \<and> pre_minute s = JInt 58 \<and> pre_hour s = JInt 23
     \<and> schedule s = JStr ''weekly''"
proof -
  have 1: "jlookup midnight_config ''auto_backup'' = Some (JDict [(''hour'', JInt 0), (''minute'', JInt 3), (''schedule'', JStr ''weekly'')])"
    by (simp add: midnight_config_def)
  have 2: "jlookup (JDict [(''hour'', JInt 0), (''minute'', JInt 3), (''schedule'', JStr ''weekly'')]) ''hour'' = Some (JInt 0)"
    by simp
  have 3: "jlookup (JDict [(''hour'', JInt 0), (''minute'', JInt 3), (''schedule'', JStr ''weekly'')]) ''minute'' = Some (JInt 3)"
    by simp
  from pre_backup_time[OF 1 2 3] show ?thesis by (auto simp: field_or_def)
qed


text \<open>
  C6: on a document that is empty (the value \<^verbatim>\<open>api_config_get\<close> also returns
  when the request fails) \<^verbatim>\<open>get_backup_schedule\<close> returns hour 23, minute 48,
  schedule \<open>daily\<close>, pre-backup hour 23 and minute 43.  On any other document
  for which it returns, the hour, minute and schedule are the values under
  \<open>auto_backup\<close>, or 23, 48 and \<open>daily\<close> where the key is missing; with both
  hour and minute missing the defaults come back whole.
\<close>

theorem backup_schedule_defaults:
  "(\<not> truthy cfg \<longrightarrow> get_backup_schedule_of cfg = Inr default_schedule)
   \<and> hour default_schedule = JInt 23 \<and> minute default_schedule = JInt 48
   \<and> schedule default_schedule = JStr ''daily''
   \<and> pre_hour default_schedule = JInt 23 \<and> pre_minute default_schedule = JInt 43
   \<and> (truthy cfg \<and> get_backup_schedule_of cfg = Inr s \<longrightarrow>
        hour s = field_or (auto_backup_of cfg) ''hour'' (JInt 23)
      \<and> minute s = field_or (auto_backup_of cfg) ''minute'' (JInt 48)
      \<and> schedule s = field_or (auto_backup_of cfg) ''schedule'' (JStr ''daily''))
   \<and> (cfg = JDict d \<and> d \<noteq> [] \<and> auto_backup_of cfg = JDict ab
        \<and> map_of ab ''hour'' = None \<and> map_of ab ''minute'' = None \<longrightarrow>
        get_backup_schedule_of cfg =
          Inr (default_schedule\<lparr>schedule := field_or (JDict ab) ''schedule'' (JStr ''daily'')\<rparr>))"
proof -
  have 1: "\<not> truthy cfg \<longrightarrow> get_backup_schedule_of cfg = Inr default_schedule"
    by (simp add: get_backup_schedule_of_def)
  have 2: "hour s = field_or (auto_backup_of cfg) ''hour'' (JInt 23)
      \<and> minute s = field_or (auto_backup_of cfg) ''minute'' (JInt 48)
      \<and> schedule s = field_or (auto_backup_of cfg) ''schedule'' (JStr ''daily'')"
    if t: "truthy cfg" and r: "get_backup_schedule_of cfg = Inr s"
  proof -
    have ne: "cfg \<noteq> JDict []" using t by auto
    obtain d where d: "cfg = JDict d"
      using r t ne by (cases cfg) (auto simp: get_backup_schedule_of_def bind_err_def)
    have g: "py_get cfg ''auto_backup'' (JDict []) = Inr (auto_backup_of cfg)"
      using d by (simp add: auto_backup_of_def field_or_def)
    obtain a where a: "auto_backup_of cfg = JDict a"
      using r unfolding get_backup_schedule_of_dict[OF t g]
      by (cases "auto_backup_of cfg") (auto simp: bind_err_def)
    show ?thesis
      using r unfolding get_backup_schedule_of_dict[OF t g] a
      by (auto simp: bind_err_def field_or_def split: sum.splits if_splits)
  qed
  have 3: "get_backup_schedule_of cfg =
          Inr (default_schedule\<lparr>schedule := field_or (JDict ab) ''schedule'' (JStr ''daily'')\<rparr>)"
    if d: "cfg = JDict d" and ne: "d \<noteq> []" and a: "auto_backup_of cfg = JDict ab"
      and n: "map_of ab ''hour'' = None" "map_of ab ''minute'' = None"
  proof -
    have t: "truthy cfg" using d ne by simp
    have g: "py_get cfg ''auto_backup'' (JDict []) = Inr (JDict ab)"
      using d a by (simp add: auto_backup_of_def field_or_def)
    show ?thesis
      unfolding get_backup_schedule_of_dict[OF t g] using n
      by (simp add: bind_err_def field_or_def default_schedule_def)
  qed
  have 4: "hour default_schedule = JInt 23 \<and> minute default_schedule = JInt 48
   \<and> schedule default_schedule = JStr ''daily''
   \<and> pre_hour default_schedule = JInt 23 \<and> pre_minute default_schedule = JInt 43"
    by (simp add: default_schedule_def)
  show ?thesis using 1 2 3 4 by blast
qed



theorem backup_schedule_defaults_witness:
  "\<not> truthy (JDict []) \<and> get_backup_schedule_of (JDict []) = Inr default_schedule
   \<and> truthy weekly_config
   \<and> get_backup_schedule_of weekly_config = Inr (default_schedule\<lparr>schedule := JStr ''weekly''\<rparr>)
   \<and> hour (default_schedule\<lparr>schedule := JStr ''weekly''\<rparr>) = JInt 23
   \<and> minute (default_schedule\<lparr>schedule := JStr ''weekly''\<rparr>) = JInt 48"
proof -
  have a: "get_backup_schedule_of (JDict []) = Inr default_schedule"
    using backup_schedule_defaults[of "JDict []"] by simp
  have t: "truthy weekly_config" by (simp add: weekly_config_def)
  have ab: "auto_backup_of weekly_config = JDict [(''schedule'', JStr ''weekly'')]"
    by (simp add: weekly_config_def auto_backup_of_def field_or_def)
  have b: "get_backup_schedule_of weekly_config = Inr (default_schedule\<lparr>schedule := JStr ''weekly''\<rparr>)"
    using backup_schedule_defaults[of weekly_config default_schedule "[(''auto_backup'', JDict [(''schedule'', JStr ''weekly'')])]"
              "[(''schedule'', JStr ''weekly'')]"] ab
    by (simp add: weekly_config_def field_or_def)
  have c: "hour (default_schedule\<lparr>schedule := JStr ''weekly''\<rparr>) = JInt 23
         \<and> minute (default_schedule\<lparr>schedule := JStr ''weekly''\<rparr>) = JInt 48"
    using backup_schedule_defaults[of weekly_config "default_schedule\<lparr>schedule := JStr ''weekly''\<rparr>"] t b ab
    by (simp add: field_or_def)
  show ?thesis using a t b c by simp
qed

section \<open>Properties of the credential store\<close>

text \<open>
  C8: \<^verbatim>\<open>get_stored_credentials\<close> returns for every state of the credential
  file and never raises.  It returns the pair without credentials when the
  file is missing, cannot be read, has fewer than two lines, or one of its
  first two lines does not decode; it returns a pair of two strings exactly
  when the file has at least two lines and both decode, and the pair is then
  the two decoded lines.
\<close>

theorem stored_credentials_total:
  "(\<exists>r. get_stored_credentials decode cf = Inr r)
   \<and> (cf = Absent \<or> cf = Unreadable \<longrightarrow> get_stored_credentials decode cf = Inr (None, None))
   \<and> (cf = Contents text \<and> length (readlines text) < 2 \<longrightarrow>
        get_stored_credentials decode cf = Inr (None, None))
   \<and> (cf = Contents text \<and> 2 \<le> length (readlines text)
        \<and> (decode (py_strip (readlines text ! 0)) = None
           \<or> decode (py_strip (readlines text ! 1)) = None) \<longrightarrow>
        get_stored_credentials decode cf = Inr (None, None))
   \<and> (get_stored_credentials decode cf = Inr (Some u, Some p) \<longrightarrow>
        (\<exists>text. cf = Contents text \<and> 2 \<le> length (readlines text)
           \<and> decode (py_strip (readlines text ! 0)) = Some u
           \<and> decode (py_strip (readlines text ! 1)) = Some p))
   \<and> (cf = Contents text \<and> 2 \<le> length (readlines text)
        \<and> decode (py_strip (readlines text ! 0)) = Some u
        \<and> decode (py_strip (readlines text ! 1)) = Some p \<longrightarrow>
        get_stored_credentials decode cf = Inr (Some u, Some p))"
  by (cases cf)
     (auto simp: get_stored_credentials_def read_credentials_def is_exception_def Let_def
           split: option.splits)

lemmas string_eval =
  readlines_def py_strip_def is_space_def is_linebreak_def LF_def CR_def

theorem stored_credentials_total_witness:
  "get_stored_credentials sample_decode Absent = Inr (None, None)
   \<and> get_stored_credentials sample_decode Unreadable = Inr (None, None)
   \<and> length (readlines ''YWRtaW4='') < 2
   \<and> get_stored_credentials sample_decode (Contents ''YWRtaW4='') = Inr (None, None)
   \<and> 2 \<le> length (readlines (''YWRtaW4='' @ [LF] @ ''!!'' @ [LF]))
   \<and> sample_decode (py_strip (readlines (''YWRtaW4='' @ [LF] @ ''!!'' @ [LF]) ! 1)) = None
   \<and> get_stored_credentials sample_decode (Contents (''YWRtaW4='' @ [LF] @ ''!!'' @ [LF]))
        = Inr (None, None)
   \<and> 2 \<le> length (readlines (''YWRtaW4='' @ [LF] @ ''cHc='' @ [LF]))
   \<and> get_stored_credentials sample_decode (Contents (''YWRtaW4='' @ [LF] @ ''cHc='' @ [LF]))
        = Inr (Some ''admin'', Some ''pw'')"
proof -
  let ?short = "''YWRtaW4=''"
  let ?bad = "''YWRtaW4='' @ [LF] @ ''!!'' @ [LF]"
  let ?good = "''YWRtaW4='' @ [LF] @ ''cHc='' @ [LF]"
  have 1: "get_stored_credentials sample_decode Absent = Inr (None, None)"
    using stored_credentials_total[of sample_decode Absent "[]" "[]" "[]"] by blast
  have 2: "get_stored_credentials sample_decode Unreadable = Inr (None, None)"
    using stored_credentials_total[of sample_decode Unreadable "[]" "[]" "[]"] by blast
  have l3: "length (readlines ?short) < 2" by (simp add: string_eval)
  have 3: "get_stored_credentials sample_decode (Contents ?short) = Inr (None, None)"
    using stored_credentials_total[of sample_decode "Contents ?short" ?short "[]" "[]"] l3
    by blast
  have l4: "2 \<le> length (readlines ?bad)"
    by (simp add: string_eval)
  have d4: "sample_decode (py_strip (readlines ?bad ! 1)) = None"
    by (simp add: string_eval sample_decode_def)
  have 4: "get_stored_credentials sample_decode (Contents ?bad) = Inr (None, None)"
    using stored_credentials_total[of sample_decode "Contents ?bad" ?bad "[]" "[]"] l4 d4
    by blast
  have l5: "2 \<le> length (readlines ?good)"
    by (simp add: string_eval)
  have u5: "sample_decode (py_strip (readlines ?good ! 0)) = Some ''admin''"
    by (simp add: string_eval sample_decode_def)
  have p5: "sample_decode (py_strip (readlines ?good ! 1)) = Some ''pw''"
    by (simp add: string_eval sample_decode_def)
  have 5: "get_stored_credentials sample_decode (Contents ?good) = Inr (Some ''admin'', Some ''pw'')"
    using stored_credentials_total[of sample_decode "Contents ?good" ?good "''admin''" "''pw''"]
      l5 u5 p5 by blast
  show ?thesis using 1 2 l3 3 l4 d4 4 l5 5 by blast
qed
section \<open>Properties of the request traces\<close>




























lemmas world_eval =
  disable_check_def enable_check_def check_and_update_cronjob_def get_backup_schedule_def
  get_current_cron_entry_def run_crontab_l_def api_login_def api_config_get_def
  api_config_put_def api_config_apply_def put_and_apply_def send_def
  get_stored_credentials_def nonempty_def get_backup_schedule_of_def
  sample_manager_def fresh_world_def ok_reply_def refused_reply_def refusing_manager_def
  Let_def


text \<open>
  Where the PUT and the APPLY are joined by \<^verbatim>\<open>and\<close>, a refused PUT ends the
  pair; \<^verbatim>\<open>cleanup\<close> sends its APPLY whatever the PUT returned.
\<close>

lemma refused_put_in_disable_check:
  "requests (snd (disable_check refusing_manager fresh_world)) =
       [(ConfigGet ''os/backup/auto-backup'', Some refused_reply),
        (ConfigGet ''os/health'', Some refused_reply),
        (ConfigPut ''os/health''
           (JDict [(''health'', JDict [(''ignore_checks'', JList [JStr check_name])])]),
         Some refused_reply)]"
  by (simp add: world_eval payload_eval)

lemma refused_put_in_cleanup:
  "requests (clear_post_backup refusing_manager fresh_world) =
       [(ConfigPut ''os/backup/post-backup'' (JDict [(''post_backup'', JDict [])]),
         Some refused_reply),
        (ConfigApply, Some refused_reply)]"
  by (simp add: clear_post_backup_def world_eval)

lemma send_frame:
  "send mgr rq w = (reply, w') \<Longrightarrow>
     crontab w' = crontab w \<and> crontab_cmds w' = crontab_cmds w \<and> creds_file w' = creds_file w"
  by (auto simp: send_def Let_def)

lemma api_config_get_frame:
  "api_config_get mgr c w = (r, w') \<Longrightarrow>
     crontab w' = crontab w \<and> crontab_cmds w' = crontab_cmds w \<and> creds_file w' = creds_file w"
  by (auto simp: api_config_get_def split: prod.splits option.splits if_splits dest: send_frame)

lemma get_backup_schedule_frame:
  "get_backup_schedule mgr w = (r, w') \<Longrightarrow>
     crontab w' = crontab w \<and> crontab_cmds w' = crontab_cmds w \<and> creds_file w' = creds_file w"
  by (auto simp: get_backup_schedule_def split: prod.splits dest: api_config_get_frame)

lemma find_None_iff_all: "find P xs = None \<longleftrightarrow> (\<forall>x\<in>set xs. \<not> P x)"
  by (induction xs) auto

lemma get_current_cron_entry_none:
  assumes "\<forall>line\<in>set (crontab_lines w). \<not> is_own_entry mgr line"
  shows "\<exists>w'. get_current_cron_entry mgr w = (None, w') \<and> crontab w' = crontab w
           \<and> crontab_cmds w' = crontab_cmds w @ [CrontabList]"
  using assms
  by (auto simp: get_current_cron_entry_def run_crontab_l_def Let_def crontab_lines_def
        find_None_iff_all split: option.splits)

lemma crontab_writes_of_append:
  "crontab_writes_of (xs @ ys) = crontab_writes_of xs @ crontab_writes_of ys"
  by (induction xs rule: crontab_writes_of.induct) auto

section \<open>Properties of the cron synchronizer\<close>

text \<open>
  C4: when no line of the crontab contains both the script path and the word
  \<open>disable\<close> (also when the user has no crontab at all),
  \<^verbatim>\<open>check_and_update_cronjob\<close> leaves the crontab as it is and hands no
  text to \<^verbatim>\<open>crontab -\<close>; the only call of the \<^verbatim>\<open>crontab\<close> program it can
  make is one listing.
\<close>

theorem crontab_untouched_without_entry:
  assumes "\<forall>line\<in>set (crontab_lines w). \<not> is_own_entry mgr line"
  shows "crontab (snd (check_and_update_cronjob mgr w)) = crontab w
       \<and> crontab_writes (snd (check_and_update_cronjob mgr w)) = crontab_writes w
       \<and> (crontab_cmds (snd (check_and_update_cronjob mgr w)) = crontab_cmds w
          \<or> crontab_cmds (snd (check_and_update_cronjob mgr w)) = crontab_cmds w @ [CrontabList])"
proof -
  obtain s1 w1 where g: "get_backup_schedule mgr w = (s1, w1)"
    by (cases "get_backup_schedule mgr w")
  note f1 = get_backup_schedule_frame[OF g]
  have "\<forall>line\<in>set (crontab_lines w1). \<not> is_own_entry mgr line"
    using assms f1 by (simp add: crontab_lines_def)
  from get_current_cron_entry_none[OF this] obtain w2 where
    c: "get_current_cron_entry mgr w1 = (None, w2)" and
    f2: "crontab w2 = crontab w1" "crontab_cmds w2 = crontab_cmds w1 @ [CrontabList]"
    by blast
  have "snd (check_and_update_cronjob mgr w) = w1 \<or> snd (check_and_update_cronjob mgr w) = w2"
    using g c by (auto simp: check_and_update_cronjob_def split: sum.splits)
  then show ?thesis
    using f1 f2 by (auto simp: crontab_writes_def crontab_writes_of_append)
qed

theorem crontab_untouched_without_entry_witness:
  "crontab_lines (fresh_world\<lparr>crontab := Some ''0 4 * * * /usr/bin/backup''\<rparr>)
     = [''0 4 * * * /usr/bin/backup'']
   \<and> \<not> is_own_entry sample_manager ''0 4 * * * /usr/bin/backup''
   \<and> crontab (snd (check_and_update_cronjob sample_manager
        (fresh_world\<lparr>crontab := Some ''0 4 * * * /usr/bin/backup''\<rparr>))) = Some ''0 4 * * * /usr/bin/backup''
   \<and> crontab_writes (snd (check_and_update_cronjob sample_manager
        (fresh_world\<lparr>crontab := Some ''0 4 * * * /usr/bin/backup''\<rparr>))) = []"
proof -
  let ?w = "fresh_world\<lparr>crontab := Some ''0 4 * * * /usr/bin/backup''\<rparr>"
  have l: "crontab_lines ?w = [''0 4 * * * /usr/bin/backup'']"
    by (simp add: crontab_lines_def fresh_world_def splitlines_def is_linebreak_def)
  have n: "\<not> is_own_entry sample_manager ''0 4 * * * /usr/bin/backup''"
    by (simp add: is_own_entry_def sample_manager_def)
  have h: "\<forall>line\<in>set (crontab_lines ?w). \<not> is_own_entry sample_manager line"
    using l n by simp
  from crontab_untouched_without_entry[OF h] l n show ?thesis
    by (simp add: fresh_world_def crontab_writes_def)
qed

section \<open>Properties of the string operations\<close>


























section \<open>Properties of the crontab rewrite\<close>

lemma api_config_get_eq:
  "api_config_get mgr c w =
     (reply_document (http mgr (length (requests w))),
      w\<lparr>requests := requests w @ [(ConfigGet c, http mgr (length (requests w)))]\<rparr>)"
  by (simp add: api_config_get_def send_def reply_document_def Let_def split: option.splits)

lemma get_backup_schedule_eq:
  "get_backup_schedule mgr w =
     (get_backup_schedule_of (reply_document (http mgr (length (requests w)))),
      w\<lparr>requests := requests w @
          [(ConfigGet ''os/backup/auto-backup'', http mgr (length (requests w)))]\<rparr>)"
  by (simp add: get_backup_schedule_def api_config_get_eq)

text \<open>
  A GET that raises or is answered without success makes the calculator fall
  back to the default schedule.
\<close>

lemma get_backup_schedule_failed_get:
  assumes "http mgr (length (requests w)) = None
         \<or> (\<exists>r. http mgr (length (requests w)) = Some r \<and> \<not> resp_ok r)"
  shows "fst (get_backup_schedule mgr w) = Inr default_schedule"
  using assms
  by (auto simp: get_backup_schedule_eq reply_document_def get_backup_schedule_of_def)
















section \<open>Properties of the orchestrator\<close>



end
